theory Spec2Isabelle
  imports Main
begin

section \<open>JavaScript values\<close>

text \<open>
  The script of \<^verbatim>\<open>src/main.js\<close> reads two spreadsheet tables, compares dates and posts
  one message. Its values are the cell values a spreadsheet hands out (strings, numbers,
  booleans, Date objects), \<^verbatim>\<open>undefined\<close> (a read past the end of a row, a missing property) and
  \<^verbatim>\<open>null\<close>.

  A number is an integer or NaN (\<open>None\<close>). The numbers the script computes with are time
  values and calendar fields, all integers below \<open>2^53\<close> in magnitude, where a double is
  exact; of a number in a cell the script only observes whether it is zero or NaN and
  its decimal text.

  A string is a \<^typ>\<open>string\<close>; the characters outside ASCII of the source's literals stand
  as their UTF-8 bytes. A Date object is a reference \<open>JDate r\<close> into a store of time values,
  since \<^verbatim>\<open>setDate\<close> updates an object in place.
\<close>

type_synonym number = "int option"

datatype jsval =
    JUndefined
  | JNull
  | JBool bool
  | JNum number
  | JStr string
  | JDate nat

definition truthy :: "jsval \<Rightarrow> bool" where
  "truthy v = (case v of
       JUndefined \<Rightarrow> False
     | JNull \<Rightarrow> False
     | JBool b \<Rightarrow> b
     | JNum n \<Rightarrow> n \<noteq> None \<and> n \<noteq> Some 0
     | JStr s \<Rightarrow> s \<noteq> []
     | JDate r \<Rightarrow> True)"

text \<open>\<^verbatim>\<open>a === b\<close>: the same type and the same value, NaN unequal to itself, objects by reference.\<close>

definition strict_eq :: "jsval \<Rightarrow> jsval \<Rightarrow> bool" where
  "strict_eq a b = (a = b \<and> a \<noteq> JNum None)"

text \<open>\<^verbatim>\<open>row[i]\<close> on an array: \<^verbatim>\<open>undefined\<close> past the end.\<close>

definition idx :: "jsval list \<Rightarrow> nat \<Rightarrow> jsval" where
  "idx row i = (if i < length row then row ! i else JUndefined)"

definition num_add :: "number \<Rightarrow> number \<Rightarrow> number" where
  "num_add a b = (case a of None \<Rightarrow> None
     | Some x \<Rightarrow> (case b of None \<Rightarrow> None | Some y \<Rightarrow> Some (x + y)))"

definition digit_char :: "nat \<Rightarrow> char" where
  "digit_char n = ''0123456789'' ! n"

fun nat_digits :: "nat \<Rightarrow> string" where
  "nat_digits n = (if n < 10 then [digit_char n]
                   else nat_digits (n div 10) @ [digit_char (n mod 10)])"

declare nat_digits.simps [simp del]

text \<open>\<^verbatim>\<open>String(n)\<close> and \<^verbatim>\<open>${n}\<close> for a number.\<close>

definition Number_toString :: "number \<Rightarrow> string" where
  "Number_toString n = (case n of
       None \<Rightarrow> ''NaN''
     | Some i \<Rightarrow> (if i < 0 then ''-'' @ nat_digits (nat (- i)) else nat_digits (nat i)))"

text \<open>\<^verbatim>\<open>s.padStart(maxLength, fillString)\<close>.\<close>

definition padStart :: "nat \<Rightarrow> string \<Rightarrow> string \<Rightarrow> string" where
  "padStart maxLength fillString s =
     (if maxLength \<le> length s \<or> fillString = [] then s
      else take (maxLength - length s) (concat (replicate (maxLength - length s) fillString)) @ s)"

section \<open>The platform's calendar arithmetic\<close>

text \<open>
  \<^verbatim>\<open>getFullYear\<close>, \<^verbatim>\<open>getMonth\<close>, \<^verbatim>\<open>getDate\<close> and \<^verbatim>\<open>setDate\<close> are built-ins of the JavaScript
  runtime. They are written here as ECMA-262 defines them (section "Time Values and Time
  Range" and the abstract operations MakeDay, MakeDate, TimeClip), on a time value in
  milliseconds since 1970-01-01T00:00:00Z. The standard characterises \<open>YearFromTime\<close> as
  the largest year that starts at or before the time; it is computed by a search from an
  estimate, and lemma \<open>YearFromDay_bounds\<close> shows the search meets the characterisation.
  The local time zone adjustment is a fixed offset \<open>tz\<close> in milliseconds (the script's
  time zone; daylight saving changes are not modelled).
\<close>

definition msPerDay :: int where
  "msPerDay = 86400000"

definition Day :: "int \<Rightarrow> int" where
  "Day t = t div msPerDay"

definition TimeWithinDay :: "int \<Rightarrow> int" where
  "TimeWithinDay t = t mod msPerDay"

definition DaysInYear :: "int \<Rightarrow> int" where
  "DaysInYear y = (if y mod 4 \<noteq> 0 then 365 else if y mod 100 \<noteq> 0 then 366
                   else if y mod 400 \<noteq> 0 then 365 else 366)"

definition DayFromYear :: "int \<Rightarrow> int" where
  "DayFromYear y =
     365 * (y - 1970) + (y - 1969) div 4 - (y - 1901) div 100 + (y - 1601) div 400"

definition TimeFromYear :: "int \<Rightarrow> int" where
  "TimeFromYear y = msPerDay * DayFromYear y"

lemma div_succ:
  fixes x k :: int
  assumes "0 < k"
  shows "(x + 1) div k = x div k + (if (x + 1) mod k = 0 then 1 else 0)"
proof (cases "x mod k = k - 1")
  case True
  have "x = k * (x div k) + x mod k" by simp
  then have "x + 1 = k * (x div k + 1) + 0"
    using True by (simp add: algebra_simps)
  moreover have "(0::int) \<le> 0" "0 < k" using assms by simp_all
  ultimately have "(x + 1) div k = x div k + 1" "(x + 1) mod k = 0"
    by (metis int_div_pos_eq, metis int_mod_pos_eq)
  then show ?thesis by simp
next
  case False
  have r: "0 \<le> x mod k" "x mod k < k" using assms by simp_all
  have "x + 1 = k * (x div k) + (x mod k + 1)" by simp
  moreover have "0 \<le> x mod k + 1" "x mod k + 1 < k" using r False by linarith+
  ultimately have "(x + 1) div k = x div k" "(x + 1) mod k = x mod k + 1"
    by (metis int_div_pos_eq, metis int_mod_pos_eq)
  then show ?thesis using r by simp
qed

lemma year_length: "DayFromYear (y + 1) = DayFromYear y + DaysInYear y"
proof -
  have m4: "(y - 1969 + 1) mod 4 = y mod 4"
    using mod_mult_self1 [of y "- 492" 4] by simp
  have m100: "(y - 1901 + 1) mod 100 = y mod 100"
    using mod_mult_self1 [of y "- 19" 100] by simp
  have m400: "(y - 1601 + 1) mod 400 = y mod 400"
    using mod_mult_self1 [of y "- 4" 400] by simp
  have a: "(y + 1 - 1969) div 4 = (y - 1969) div 4 + (if y mod 4 = 0 then 1 else 0)"
    using div_succ [of 4 "y - 1969"] m4 by (simp add: algebra_simps)
  have b: "(y + 1 - 1901) div 100 = (y - 1901) div 100 + (if y mod 100 = 0 then 1 else 0)"
    using div_succ [of 100 "y - 1901"] m100 by (simp add: algebra_simps)
  have c: "(y + 1 - 1601) div 400 = (y - 1601) div 400 + (if y mod 400 = 0 then 1 else 0)"
    using div_succ [of 400 "y - 1601"] m400 by (simp add: algebra_simps)
  have d: "y mod 100 = 0 \<Longrightarrow> y mod 4 = 0"
    using dvd_trans [of 4 100 y] by (simp add: mod_eq_0_iff_dvd)
  have e: "y mod 400 = 0 \<Longrightarrow> y mod 100 = 0"
    using dvd_trans [of 100 400 y] by (simp add: mod_eq_0_iff_dvd)
  show ?thesis unfolding DayFromYear_def DaysInYear_def a b c using d e by auto
qed

lemma DaysInYear_bounds: "365 \<le> DaysInYear y" "DaysInYear y \<le> 366"
  by (simp_all add: DaysInYear_def)

lemma DayFromYear_pred: "DayFromYear (y - 1) + 365 \<le> DayFromYear y"
  using year_length [of "y - 1"] DaysInYear_bounds(1) [of "y - 1"] by simp

lemma DayFromYear_succ: "DayFromYear y + 365 \<le> DayFromYear (y + 1)"
  using year_length [of y] DaysInYear_bounds(1) [of y] by simp

text \<open>The search for the year of a day number: down while the year starts after the day,
  then up while the next year starts at or before it.\<close>

function year_down :: "int \<Rightarrow> int \<Rightarrow> int" where
  "year_down d y = (if d < DayFromYear y then year_down d (y - 1) else y)"
  by pat_completeness auto
termination
proof (relation "measure (\<lambda>(d, y). nat (DayFromYear y - d))")
  show "wf (measure (\<lambda>(d, y). nat (DayFromYear y - d)))" by simp
next
  fix d y :: int
  assume "d < DayFromYear y"
  then show "((d, y - 1), (d, y)) \<in> measure (\<lambda>(d, y). nat (DayFromYear y - d))"
    using DayFromYear_pred [of y] by simp
qed

function year_up :: "int \<Rightarrow> int \<Rightarrow> int" where
  "year_up d y = (if DayFromYear (y + 1) \<le> d then year_up d (y + 1) else y)"
  by pat_completeness auto
termination
proof (relation "measure (\<lambda>(d, y). nat (d + 1 - DayFromYear (y + 1)))")
  show "wf (measure (\<lambda>(d, y). nat (d + 1 - DayFromYear (y + 1))))" by simp
next
  fix d y :: int
  assume "DayFromYear (y + 1) \<le> d"
  then show "((d, y + 1), (d, y)) \<in> measure (\<lambda>(d, y). nat (d + 1 - DayFromYear (y + 1)))"
    using DayFromYear_succ [of "y + 1"] by simp
qed

declare year_down.simps [simp del] year_up.simps [simp del]

definition YearFromDay :: "int \<Rightarrow> int" where
  "YearFromDay d = year_up d (year_down d (1970 + d div 365))"

definition YearFromTime :: "int \<Rightarrow> int" where
  "YearFromTime t = YearFromDay (Day t)"

definition InLeapYear :: "int \<Rightarrow> bool" where
  "InLeapYear t = (DaysInYear (YearFromTime t) = 366)"

definition DayWithinYear :: "int \<Rightarrow> int" where
  "DayWithinYear t = Day t - DayFromYear (YearFromTime t)"

text \<open>The day within the year on which month \<open>m\<close> (0 to 11) starts.\<close>

definition month_start :: "int \<Rightarrow> bool \<Rightarrow> int" where
  "month_start m leap = (let l = (if leap then 1 else 0) in
     if m = 0 then 0 else if m = 1 then 31 else if m = 2 then 59 + l
     else if m = 3 then 90 + l else if m = 4 then 120 + l else if m = 5 then 151 + l
     else if m = 6 then 181 + l else if m = 7 then 212 + l else if m = 8 then 243 + l
     else if m = 9 then 273 + l else if m = 10 then 304 + l else 334 + l)"

definition MonthFromTime :: "int \<Rightarrow> int" where
  "MonthFromTime t = (let d = DayWithinYear t; l = (if InLeapYear t then 1 else 0) in
     if d < 31 then 0 else if d < 59 + l then 1 else if d < 90 + l then 2
     else if d < 120 + l then 3 else if d < 151 + l then 4 else if d < 181 + l then 5
     else if d < 212 + l then 6 else if d < 243 + l then 7 else if d < 273 + l then 8
     else if d < 304 + l then 9 else if d < 334 + l then 10 else 11)"

definition DateFromTime :: "int \<Rightarrow> int" where
  "DateFromTime t = (let d = DayWithinYear t; l = (if InLeapYear t then 1 else 0);
                         m = MonthFromTime t in
     if m = 0 then d + 1 else if m = 1 then d - 30 else if m = 2 then d - 58 - l
     else if m = 3 then d - 89 - l else if m = 4 then d - 119 - l
     else if m = 5 then d - 150 - l else if m = 6 then d - 180 - l
     else if m = 7 then d - 211 - l else if m = 8 then d - 242 - l
     else if m = 9 then d - 272 - l else if m = 10 then d - 303 - l else d - 333 - l)"

definition LocalTime :: "int \<Rightarrow> int \<Rightarrow> int" where
  "LocalTime tz t = t + tz"

definition UTC :: "int \<Rightarrow> int \<Rightarrow> int" where
  "UTC tz t = t - tz"

text \<open>MakeDay(year, month, date): the day number of the first of the month, found from the
  year's first day and the month's start, plus \<open>date - 1\<close>.\<close>

definition MakeDay :: "number \<Rightarrow> number \<Rightarrow> number \<Rightarrow> number" where
  "MakeDay year month date = (case year of None \<Rightarrow> None | Some y \<Rightarrow>
     (case month of None \<Rightarrow> None | Some m \<Rightarrow>
     (case date of None \<Rightarrow> None | Some dt \<Rightarrow>
        (let ym = y + m div 12; mn = m mod 12
         in Some (DayFromYear ym + month_start mn (DaysInYear ym = 366) + dt - 1)))))"

definition MakeDate :: "number \<Rightarrow> number \<Rightarrow> number" where
  "MakeDate day time = (case day of None \<Rightarrow> None | Some d \<Rightarrow>
     (case time of None \<Rightarrow> None | Some tm \<Rightarrow> Some (d * msPerDay + tm)))"

definition TimeClip :: "number \<Rightarrow> number" where
  "TimeClip time = (case time of None \<Rightarrow> None
     | Some t \<Rightarrow> (if 8640000000000000 < \<bar>t\<bar> then None else Some t))"

section \<open>Date objects\<close>

text \<open>
  The store of Date objects: \<open>slots\<close> gives each object's time value (\<open>None\<close> is the
  invalid date), \<open>nxt\<close> is the next free reference, so the objects in use are those
  below \<open>nxt\<close>.
\<close>

record dstore =
  slots :: "nat \<Rightarrow> number"
  nxt :: nat

definition alloc_Date :: "number \<Rightarrow> dstore \<Rightarrow> nat \<times> dstore" where
  "alloc_Date tv ds = (nxt ds, ds\<lparr>slots := (slots ds)(nxt ds := tv), nxt := Suc (nxt ds)\<rparr>)"

text \<open>\<^verbatim>\<open>new Date(date)\<close> for a Date object: a new object with the same time value.\<close>

definition new_Date_copy :: "nat \<Rightarrow> dstore \<Rightarrow> nat \<times> dstore" where
  "new_Date_copy date ds = alloc_Date (TimeClip (slots ds date)) ds"

definition getFullYear :: "int \<Rightarrow> number \<Rightarrow> number" where
  "getFullYear tz tv = (case tv of None \<Rightarrow> None | Some t \<Rightarrow> Some (YearFromTime (LocalTime tz t)))"

definition getMonth :: "int \<Rightarrow> number \<Rightarrow> number" where
  "getMonth tz tv = (case tv of None \<Rightarrow> None | Some t \<Rightarrow> Some (MonthFromTime (LocalTime tz t)))"

definition getDate :: "int \<Rightarrow> number \<Rightarrow> number" where
  "getDate tz tv = (case tv of None \<Rightarrow> None | Some t \<Rightarrow> Some (DateFromTime (LocalTime tz t)))"

text \<open>\<^verbatim>\<open>d.setDate(dt)\<close>: updates the object \<open>r\<close> in place.\<close>

definition setDate :: "int \<Rightarrow> nat \<Rightarrow> number \<Rightarrow> dstore \<Rightarrow> dstore" where
  "setDate tz r dt ds = (case slots ds r of
       None \<Rightarrow> ds
     | Some t0 \<Rightarrow>
        (let t = LocalTime tz t0;
             newDate = MakeDate (MakeDay (Some (YearFromTime t)) (Some (MonthFromTime t)) dt)
                                (Some (TimeWithinDay t));
             u = TimeClip (case newDate of None \<Rightarrow> None | Some nd \<Rightarrow> Some (UTC tz nd))
         in ds\<lparr>slots := (slots ds)(r := u)\<rparr>))"

section \<open>The date utilities of the script\<close>

text \<open>
  \<^verbatim>\<open>formatDate\<close> (src/main.js, lines 90 to 97): a value that is not a Date object is returned
  as it is; a Date is rendered as year, month and day, the month and the day padded to
  two characters with \<^verbatim>\<open>'0'\<close>.
\<close>

definition formatDate :: "int \<Rightarrow> (nat \<Rightarrow> number) \<Rightarrow> jsval \<Rightarrow> jsval" where
  "formatDate tz h date = (case date of
       JDate r \<Rightarrow>
        (let year = getFullYear tz (h r);
             month = padStart 2 ''0'' (Number_toString (num_add (getMonth tz (h r)) (Some 1)));
             day = padStart 2 ''0'' (Number_toString (getDate tz (h r)))
         in JStr (Number_toString year @ ''/'' @ month @ ''/'' @ day))
     | _ \<Rightarrow> date)"

text \<open>
  \<^verbatim>\<open>addDays\<close> (lines 105 to 109): copies the Date, then moves the copy's day of the month.
\<close>

definition addDays :: "int \<Rightarrow> nat \<Rightarrow> number \<Rightarrow> dstore \<Rightarrow> nat \<times> dstore" where
  "addDays tz date days ds =
     (let (newDate, ds1) = new_Date_copy date ds;
          ds2 = setDate tz newDate (num_add (getDate tz (slots ds1 newDate)) days) ds1
      in (newDate, ds2))"

section \<open>The spreadsheet store, the messaging endpoint and the clock\<close>

text \<open>
  The script reaches its surroundings through \<^verbatim>\<open>SpreadsheetApp\<close>, \<^verbatim>\<open>UrlFetchApp\<close> and
  \<^verbatim>\<open>new Date()\<close>. Every call of the first two is an \<open>event\<close>; the world keeps the events
  so far in \<open>trace\<close>. Whether a call throws is the surroundings' choice: \<open>faults\<close> decides
  it from the events so far and the call, and gives the message of the thrown error.
  \<open>LogErrorCalled\<close> is not a call of the platform: it marks an entry of \<^verbatim>\<open>logError\<close> with
  its argument.
\<close>

datatype exn = Error string

definition message_of :: "exn \<Rightarrow> string" where
  "message_of e = (case e of Error m \<Rightarrow> m)"

record request =
  req_url :: jsval
  req_method :: string
  req_headers :: "(string \<times> string) list"
  req_payload :: string

text \<open>The object handed to \<^verbatim>\<open>JSON.stringify\<close>:
  \<^verbatim>\<open>{to: ..., messages: [{type: ..., text: ...}]}\<close>.\<close>

record line_body =
  body_to :: jsval
  body_type :: string
  body_text :: jsval

datatype range = Range string int int int int | DataRange string

datatype event =
    GetActiveSpreadsheet
  | GetSheetByName string
  | InsertSheet string
  | GetLastRow string
  | GetRange string int int int int
  | GetDataRange string
  | GetValues range
  | AppendRow string "jsval list"
  | Fetch request
  | LogErrorCalled string

text \<open>
  \<open>sheets\<close> maps a sheet's name to its rows, the last of them the sheet's last row with
  content. \<open>tza\<close> is the script's time zone offset; \<open>Date_toString\<close>,
  \<open>Date_toLocaleString\<close> and \<open>JSON_stringify\<close> are the platform's renderings, which the
  script does not fix.
\<close>

record world =
  sheets :: "string \<Rightarrow> jsval list list option"
  dates :: dstore
  trace :: "event list"
  faults :: "event list \<Rightarrow> event \<Rightarrow> string option"
  clock :: "event list \<Rightarrow> int"
  tza :: int
  Date_toString :: "number \<Rightarrow> string"
  Date_toLocaleString :: "number \<Rightarrow> string"
  JSON_stringify :: "(nat \<Rightarrow> number) \<Rightarrow> line_body \<Rightarrow> string"

text \<open>A computation returns a value or throws, and changes the world.\<close>

type_synonym 'a prog = "world \<Rightarrow> (exn + 'a) \<times> world"

definition returnE :: "'a \<Rightarrow> 'a prog" where
  "returnE x w = (Inr x, w)"

definition getsE :: "(world \<Rightarrow> 'a) \<Rightarrow> 'a prog" where
  "getsE f w = (Inr (f w), w)"

definition bindE :: "'a prog \<Rightarrow> ('a \<Rightarrow> 'b prog) \<Rightarrow> 'b prog" where
  "bindE m f w = (case m w of (Inl e, w') \<Rightarrow> (Inl e, w') | (Inr x, w') \<Rightarrow> f x w')"

text \<open>\<^verbatim>\<open>try { m } catch (error) { h(error) }\<close>.\<close>

definition catchE :: "'a prog \<Rightarrow> (exn \<Rightarrow> 'a prog) \<Rightarrow> 'a prog" where
  "catchE m h w = (case m w of (Inl e, w') \<Rightarrow> h e w' | (Inr x, w') \<Rightarrow> (Inr x, w'))"

definition note_event :: "event \<Rightarrow> unit prog" where
  "note_event ev w = (Inr (), w\<lparr>trace := trace w @ [ev]\<rparr>)"

definition api :: "event \<Rightarrow> unit prog" where
  "api c w = (case faults w (trace w) c of
       Some msg \<Rightarrow> (Inl (Error msg), w\<lparr>trace := trace w @ [c]\<rparr>)
     | None \<Rightarrow> (Inr (), w\<lparr>trace := trace w @ [c]\<rparr>))"

definition rows_of :: "world \<Rightarrow> string \<Rightarrow> jsval list list" where
  "rows_of w name = (case sheets w name of None \<Rightarrow> [] | Some rs \<Rightarrow> rs)"

definition getActiveSpreadsheet :: "unit prog" where
  "getActiveSpreadsheet = api GetActiveSpreadsheet"

text \<open>\<^verbatim>\<open>getSheetByName(name)\<close>: the sheet, or \<^verbatim>\<open>null\<close> (\<open>None\<close>) when there is none of the name.\<close>

definition getSheetByName :: "string \<Rightarrow> string option prog" where
  "getSheetByName name = bindE (api (GetSheetByName name))
     (\<lambda>_. getsE (\<lambda>w. if sheets w name = None then None else Some name))"

definition insertSheet :: "string \<Rightarrow> string prog" where
  "insertSheet name = bindE (api (InsertSheet name))
     (\<lambda>_ w. (Inr name, w\<lparr>sheets := (sheets w)(name \<mapsto> [])\<rparr>))"

definition getLastRow :: "string \<Rightarrow> int prog" where
  "getLastRow sheet = bindE (api (GetLastRow sheet))
     (\<lambda>_. getsE (\<lambda>w. int (length (rows_of w sheet))))"

definition getRange :: "string \<Rightarrow> int \<Rightarrow> int \<Rightarrow> int \<Rightarrow> int \<Rightarrow> range prog" where
  "getRange sheet row col numRows numCols = bindE (api (GetRange sheet row col numRows numCols))
     (\<lambda>_. returnE (Range sheet row col numRows numCols))"

definition getDataRange :: "string \<Rightarrow> range prog" where
  "getDataRange sheet = bindE (api (GetDataRange sheet)) (\<lambda>_. returnE (DataRange sheet))"

text \<open>A cell of the grid: the empty string where the sheet holds nothing.\<close>

definition cell_at :: "jsval list list \<Rightarrow> nat \<Rightarrow> nat \<Rightarrow> jsval" where
  "cell_at rows i j = (if i < length rows \<and> j < length (rows ! i) then rows ! i ! j else JStr [])"

definition range_values :: "world \<Rightarrow> range \<Rightarrow> jsval list list" where
  "range_values w rg = (case rg of
       Range sheet row col numRows numCols \<Rightarrow>
         map (\<lambda>i. map (\<lambda>j. cell_at (rows_of w sheet) (nat (row - 1) + i) (nat (col - 1) + j))
                       [0..<nat numCols])
             [0..<nat numRows]
     | DataRange sheet \<Rightarrow> rows_of w sheet)"

definition getValues :: "range \<Rightarrow> jsval list list prog" where
  "getValues rg = bindE (api (GetValues rg)) (\<lambda>_. getsE (\<lambda>w. range_values w rg))"

definition appendRow :: "string \<Rightarrow> jsval list \<Rightarrow> unit prog" where
  "appendRow sheet row = bindE (api (AppendRow sheet row))
     (\<lambda>_ w. (Inr (), w\<lparr>sheets := (sheets w)(sheet \<mapsto> rows_of w sheet @ [row])\<rparr>))"

definition fetch :: "request \<Rightarrow> unit prog" where
  "fetch req = api (Fetch req)"

text \<open>\<^verbatim>\<open>new Date()\<close>: a new Date object holding the clock's time.\<close>

definition new_Date :: "nat prog" where
  "new_Date w = (let (r, ds) = alloc_Date (Some (clock w (trace w))) (dates w)
                 in (Inr r, w\<lparr>dates := ds\<rparr>))"

definition addDaysE :: "nat \<Rightarrow> number \<Rightarrow> nat prog" where
  "addDaysE date days w = (let (r, ds) = addDays (tza w) date days (dates w)
                           in (Inr r, w\<lparr>dates := ds\<rparr>))"

text \<open>The string of a value, as a template literal, \<^verbatim>\<open>+\<close> with a string, a property key
  and \<^verbatim>\<open>join\<close> take it.\<close>

definition ToString :: "world \<Rightarrow> jsval \<Rightarrow> string" where
  "ToString w v = (case v of
       JUndefined \<Rightarrow> ''undefined''
     | JNull \<Rightarrow> ''null''
     | JBool b \<Rightarrow> (if b then ''true'' else ''false'')
     | JNum n \<Rightarrow> Number_toString n
     | JStr s \<Rightarrow> s
     | JDate r \<Rightarrow> Date_toString w (slots (dates w) r))"

fun join_strs :: "string \<Rightarrow> string list \<Rightarrow> string" where
  "join_strs sep [] = []"
| "join_strs sep [x] = x"
| "join_strs sep (x # y # ys) = x @ sep @ join_strs sep (y # ys)"

text \<open>\<^verbatim>\<open>xs.join(sep)\<close>: each element as its string, \<^verbatim>\<open>undefined\<close> and \<^verbatim>\<open>null\<close> as the
  empty string, with \<open>sep\<close> between neighbours.\<close>

definition elem_text :: "world \<Rightarrow> jsval \<Rightarrow> string" where
  "elem_text w v = (if v = JUndefined \<or> v = JNull then [] else ToString w v)"

definition join_js :: "world \<Rightarrow> string \<Rightarrow> jsval list \<Rightarrow> string" where
  "join_js w sep xs = join_strs sep (map (elem_text w) xs)"

section \<open>The script\<close>

subsection \<open>Constants and messages\<close>

text \<open>The sheet names (settings, due dates, error log) and the Japanese messages of the
  source, byte for byte.\<close>

definition SETTINGS_SHEET_NAME :: string where
  "SETTINGS_SHEET_NAME =
     [CHR 0xE8, CHR 0xA8, CHR 0xAD, CHR 0xE5, CHR 0xAE, CHR 0x9A]"

definition DATA_SHEET_NAME :: string where
  "DATA_SHEET_NAME =
     [CHR 0xE8, CHR 0xBF, CHR 0x94, CHR 0xE5, CHR 0x8D, CHR 0xB4, CHR 0xE6, CHR 0x9C, CHR 0x9F,
      CHR 0xE9, CHR 0x99, CHR 0x90]"

definition ERROR_LOG_SHEET_NAME :: string where
  "ERROR_LOG_SHEET_NAME =
     [CHR 0xE3, CHR 0x82, CHR 0xA8, CHR 0xE3, CHR 0x83, CHR 0xA9, CHR 0xE3, CHR 0x83, CHR 0xBC,
      CHR 0xE3, CHR 0x83, CHR 0xAD, CHR 0xE3, CHR 0x82, CHR 0xB0]"

definition MSG_CONFIG_INVALID :: string where
  "MSG_CONFIG_INVALID =
     [CHR 0xE8, CHR 0xA8, CHR 0xAD, CHR 0xE5, CHR 0xAE, CHR 0x9A, CHR 0xE6, CHR 0x83, CHR 0x85,
      CHR 0xE5, CHR 0xA0, CHR 0xB1, CHR 0xE3, CHR 0x81, CHR 0x8C, CHR 0xE6, CHR 0xAD, CHR 0xA3,
      CHR 0xE3, CHR 0x81, CHR 0x97, CHR 0xE3, CHR 0x81, CHR 0x8F, CHR 0xE5, CHR 0x8F, CHR 0x96,
      CHR 0xE5, CHR 0xBE, CHR 0x97, CHR 0xE3, CHR 0x81, CHR 0xA7, CHR 0xE3, CHR 0x81, CHR 0x8D,
      CHR 0xE3, CHR 0x81, CHR 0xBE, CHR 0xE3, CHR 0x81, CHR 0x9B, CHR 0xE3, CHR 0x82, CHR 0x93,
      CHR 0xE3, CHR 0x81, CHR 0xA7, CHR 0xE3, CHR 0x81, CHR 0x97, CHR 0xE3, CHR 0x81, CHR 0x9F,
      CHR 0xE3, CHR 0x80, CHR 0x82, CHR 0xE8, CHR 0xA8, CHR 0xAD, CHR 0xE5, CHR 0xAE, CHR 0x9A,
      CHR 0xE3, CHR 0x82, CHR 0xB7, CHR 0xE3, CHR 0x83, CHR 0xBC, CHR 0xE3, CHR 0x83, CHR 0x88,
      CHR 0xE3, CHR 0x81, CHR 0xAE, CHR 0xE5, CHR 0x86, CHR 0x85, CHR 0xE5, CHR 0xAE, CHR 0xB9,
      CHR 0xE3, CHR 0x82, CHR 0x92, CHR 0xE7, CHR 0xA2, CHR 0xBA, CHR 0xE8, CHR 0xAA, CHR 0x8D,
      CHR 0xE3, CHR 0x81, CHR 0x97, CHR 0xE3, CHR 0x81, CHR 0xA6, CHR 0xE3, CHR 0x81, CHR 0x8F,
      CHR 0xE3, CHR 0x81, CHR 0xA0, CHR 0xE3, CHR 0x81, CHR 0x95, CHR 0xE3, CHR 0x81, CHR 0x84,
      CHR 0xE3, CHR 0x80, CHR 0x82]"

definition MSG_HEADER :: string where
  "MSG_HEADER =
     [CHR 0xE4, CHR 0xBB, CHR 0xA5, CHR 0xE4, CHR 0xB8, CHR 0x8B, CHR 0xE3, CHR 0x81, CHR 0xAE,
      CHR 0xE6, CHR 0x9C, CHR 0xAC, CHR 0xE3, CHR 0x81, CHR 0xAE, CHR 0xE8, CHR 0xBF, CHR 0x94,
      CHR 0xE5, CHR 0x8D, CHR 0xB4, CHR 0xE6, CHR 0x9C, CHR 0x9F, CHR 0xE9, CHR 0x99, CHR 0x90,
      CHR 0xE3, CHR 0x81, CHR 0x8C, CHR 0xE6, CHR 0x98, CHR 0x8E, CHR 0xE6, CHR 0x97, CHR 0xA5,
      CHR 0xE3, CHR 0x81, CHR 0xA7, CHR 0xE3, CHR 0x81, CHR 0x99] @
     '':''"

definition MSG_CHECK_FAILED :: string where
  "MSG_CHECK_FAILED =
     ''checkReturnDatesAndNotify'' @
     [CHR 0xE9, CHR 0x96, CHR 0xA2, CHR 0xE6, CHR 0x95, CHR 0xB0, CHR 0xE3, CHR 0x81, CHR 0xA7,
      CHR 0xE3, CHR 0x82, CHR 0xA8, CHR 0xE3, CHR 0x83, CHR 0xA9, CHR 0xE3, CHR 0x83, CHR 0xBC] @
     '': ''"

definition MSG_NO_SETTINGS_SHEET :: string where
  "MSG_NO_SETTINGS_SHEET =
     [CHR 0xE8, CHR 0xA8, CHR 0xAD, CHR 0xE5, CHR 0xAE, CHR 0x9A, CHR 0xE3, CHR 0x82, CHR 0xB7,
      CHR 0xE3, CHR 0x83, CHR 0xBC, CHR 0xE3, CHR 0x83, CHR 0x88, CHR 0xE3, CHR 0x81, CHR 0x8C,
      CHR 0xE8, CHR 0xA6, CHR 0x8B, CHR 0xE3, CHR 0x81, CHR 0xA4, CHR 0xE3, CHR 0x81, CHR 0x8B,
      CHR 0xE3, CHR 0x82, CHR 0x8A, CHR 0xE3, CHR 0x81, CHR 0xBE, CHR 0xE3, CHR 0x81, CHR 0x9B,
      CHR 0xE3, CHR 0x82, CHR 0x93, CHR 0xE3, CHR 0x80, CHR 0x82]"

definition MSG_GETCONFIG_FAILED :: string where
  "MSG_GETCONFIG_FAILED =
     ''getConfig'' @
     [CHR 0xE9, CHR 0x96, CHR 0xA2, CHR 0xE6, CHR 0x95, CHR 0xB0, CHR 0xE3, CHR 0x81, CHR 0xA7,
      CHR 0xE3, CHR 0x82, CHR 0xA8, CHR 0xE3, CHR 0x83, CHR 0xA9, CHR 0xE3, CHR 0x83, CHR 0xBC] @
     '': ''"

definition MSG_NO_DATA_SHEET :: string where
  "MSG_NO_DATA_SHEET =
     [CHR 0xE8, CHR 0xBF, CHR 0x94, CHR 0xE5, CHR 0x8D, CHR 0xB4, CHR 0xE6, CHR 0x9C, CHR 0x9F,
      CHR 0xE9, CHR 0x99, CHR 0x90, CHR 0xE3, CHR 0x82, CHR 0xB7, CHR 0xE3, CHR 0x83, CHR 0xBC,
      CHR 0xE3, CHR 0x83, CHR 0x88, CHR 0xE3, CHR 0x81, CHR 0x8C, CHR 0xE8, CHR 0xA6, CHR 0x8B,
      CHR 0xE3, CHR 0x81, CHR 0xA4, CHR 0xE3, CHR 0x81, CHR 0x8B, CHR 0xE3, CHR 0x82, CHR 0x8A,
      CHR 0xE3, CHR 0x81, CHR 0xBE, CHR 0xE3, CHR 0x81, CHR 0x9B, CHR 0xE3, CHR 0x82, CHR 0x93,
      CHR 0xE3, CHR 0x80, CHR 0x82]"

definition MSG_GETBOOKS_FAILED :: string where
  "MSG_GETBOOKS_FAILED =
     ''getBooksDueOnDate'' @
     [CHR 0xE9, CHR 0x96, CHR 0xA2, CHR 0xE6, CHR 0x95, CHR 0xB0, CHR 0xE3, CHR 0x81, CHR 0xA7,
      CHR 0xE3, CHR 0x82, CHR 0xA8, CHR 0xE3, CHR 0x83, CHR 0xA9, CHR 0xE3, CHR 0x83, CHR 0xBC] @
     '': ''"

definition MSG_SEND_ARGS :: string where
  "MSG_SEND_ARGS =
     ''sendMessageToLINE'' @
     [CHR 0xE9, CHR 0x96, CHR 0xA2, CHR 0xE6, CHR 0x95, CHR 0xB0, CHR 0xE3, CHR 0x81, CHR 0xAB,
      CHR 0xE5, CHR 0xBF, CHR 0x85, CHR 0xE8, CHR 0xA6, CHR 0x81, CHR 0xE3, CHR 0x81, CHR 0xAA,
      CHR 0xE5, CHR 0xBC, CHR 0x95, CHR 0xE6, CHR 0x95, CHR 0xB0, CHR 0xE3, CHR 0x81, CHR 0x8C,
      CHR 0xE6, CHR 0xB8, CHR 0xA1, CHR 0xE3, CHR 0x81, CHR 0x95, CHR 0xE3, CHR 0x82, CHR 0x8C,
      CHR 0xE3, CHR 0x81, CHR 0xA6, CHR 0xE3, CHR 0x81, CHR 0x84, CHR 0xE3, CHR 0x81, CHR 0xBE,
      CHR 0xE3, CHR 0x81, CHR 0x9B, CHR 0xE3, CHR 0x82, CHR 0x93, CHR 0xE3, CHR 0x80, CHR 0x82]"

definition MSG_SEND_FAILED :: string where
  "MSG_SEND_FAILED =
     ''sendMessageToLINE'' @
     [CHR 0xE9, CHR 0x96, CHR 0xA2, CHR 0xE6, CHR 0x95, CHR 0xB0, CHR 0xE3, CHR 0x81, CHR 0xA7,
      CHR 0xE3, CHR 0x82, CHR 0xA8, CHR 0xE3, CHR 0x83, CHR 0xA9, CHR 0xE3, CHR 0x83, CHR 0xBC] @
     '': ''"

definition URL_RENTAL_LIST :: string where
  "URL_RENTAL_LIST = ''https://libweb.city.setagaya.tokyo.jp/rentallist''"

subsection \<open>The configuration object\<close>

text \<open>An object with string keys, in insertion order. \<^verbatim>\<open>config[key] = value\<close> replaces the
  value of a key already there; \<^verbatim>\<open>config.k\<close> is \<^verbatim>\<open>undefined\<close> for a key that is not (none
  of the three keys the script reads is a property every object has).\<close>

type_synonym config = "(string \<times> jsval) list"

primrec set_prop :: "config \<Rightarrow> string \<Rightarrow> jsval \<Rightarrow> config" where
  "set_prop [] k v = [(k, v)]"
| "set_prop (p # ps) k v = (if fst p = k then (k, v) # ps else p # set_prop ps k v)"

definition get_prop :: "config \<Rightarrow> string \<Rightarrow> jsval" where
  "get_prop c k = (case map_of c k of None \<Rightarrow> JUndefined | Some v \<Rightarrow> v)"

subsection \<open>logError (lines 148 to 153)\<close>

definition logError :: "string \<Rightarrow> unit prog" where
  "logError errorMessage =
     bindE (note_event (LogErrorCalled errorMessage)) (\<lambda>_.
     bindE getActiveSpreadsheet (\<lambda>_.
     bindE (getSheetByName ERROR_LOG_SHEET_NAME) (\<lambda>found.
     bindE (case found of
              Some s \<Rightarrow> returnE s
            | None \<Rightarrow> bindE getActiveSpreadsheet (\<lambda>_. insertSheet ERROR_LOG_SHEET_NAME)) (\<lambda>sheet.
     bindE new_Date (\<lambda>d.
     bindE (getsE (\<lambda>w. Date_toLocaleString w (slots (dates w) d))) (\<lambda>stamp.
     appendRow sheet [JStr stamp, JStr errorMessage]))))))"

subsection \<open>getConfig (lines 34 to 53)\<close>

definition getConfig :: "config option prog" where
  "getConfig = catchE
     (bindE getActiveSpreadsheet (\<lambda>_.
      bindE (getSheetByName SETTINGS_SHEET_NAME) (\<lambda>found.
      case found of
        None \<Rightarrow> bindE (logError MSG_NO_SETTINGS_SHEET) (\<lambda>_. returnE None)
      | Some sheet \<Rightarrow>
          bindE (getLastRow sheet) (\<lambda>lastRow.
          bindE (getRange sheet 1 1 lastRow 2) (\<lambda>rg.
          bindE (getValues rg) (\<lambda>data.
          getsE (\<lambda>w. Some (foldl (\<lambda>config row. set_prop config (ToString w (idx row 0)) (idx row 1))
                                   [] data))))))))
     (\<lambda>error. bindE (logError (MSG_GETCONFIG_FAILED @ message_of error)) (\<lambda>_. returnE None))"

subsection \<open>getBooksDueOnDate (lines 60 to 83)\<close>

text \<open>The callback of \<^verbatim>\<open>filter\<close>: the due date of the row (column G), formatted, is the
  target.\<close>

definition row_is_due :: "world \<Rightarrow> jsval \<Rightarrow> jsval list \<Rightarrow> bool" where
  "row_is_due w targetDate row =
     (let dueDate = idx row 6;
          dueDateString = formatDate (tza w) (slots (dates w)) dueDate
      in strict_eq dueDateString targetDate)"

definition getBooksDueOnDate :: "jsval \<Rightarrow> jsval list prog" where
  "getBooksDueOnDate targetDate = catchE
     (bindE getActiveSpreadsheet (\<lambda>_.
      bindE (getSheetByName DATA_SHEET_NAME) (\<lambda>found.
      case found of
        None \<Rightarrow> bindE (logError MSG_NO_DATA_SHEET) (\<lambda>_. returnE [])
      | Some sheet \<Rightarrow>
          bindE (getDataRange sheet) (\<lambda>rg.
          bindE (getValues rg) (\<lambda>data.
          getsE (\<lambda>w. map (\<lambda>row. idx row 3) (filter (row_is_due w targetDate) (drop 1 data))))))))
     (\<lambda>error. bindE (logError (MSG_GETBOOKS_FAILED @ message_of error)) (\<lambda>_. returnE []))"

subsection \<open>sendMessageToLINE (lines 116 to 142)\<close>

definition line_request :: "world \<Rightarrow> config \<Rightarrow> jsval \<Rightarrow> request" where
  "line_request w config message =
     \<lparr>req_url = get_prop config ''URL'',
      req_method = ''post'',
      req_headers = [(''Content-Type'', ''application/json; charset=UTF-8''),
                     (''Authorization'', ''Bearer '' @ ToString w (get_prop config ''ACCESS_TOKEN''))],
      req_payload = JSON_stringify w (slots (dates w))
                      \<lparr>body_to = get_prop config ''TO_USER_ID'', body_type = ''text'',
                       body_text = message\<rparr>\<rparr>"

definition sendMessageToLINE :: "config option \<Rightarrow> jsval \<Rightarrow> unit prog" where
  "sendMessageToLINE config message = catchE
     (case config of
        None \<Rightarrow> logError MSG_SEND_ARGS
      | Some c \<Rightarrow>
          if \<not> truthy message then logError MSG_SEND_ARGS
          else bindE (getsE (\<lambda>w. line_request w c message)) fetch)
     (\<lambda>error. logError (MSG_SEND_FAILED @ message_of error))"

subsection \<open>checkReturnDatesAndNotify (lines 8 to 28)\<close>

text \<open>\<^verbatim>\<open>!config || !config.URL || !config.ACCESS_TOKEN || !config.TO_USER_ID\<close>.\<close>

definition config_invalid :: "config option \<Rightarrow> bool" where
  "config_invalid config = (case config of
       None \<Rightarrow> True
     | Some c \<Rightarrow> \<not> truthy (get_prop c ''URL'') \<or> \<not> truthy (get_prop c ''ACCESS_TOKEN'')
                \<or> \<not> truthy (get_prop c ''TO_USER_ID''))"

text \<open>The template literal of line 22.\<close>

definition due_message :: "world \<Rightarrow> jsval list \<Rightarrow> string" where
  "due_message w returnBooks =
     MSG_HEADER @ [CHR 0x0A] @ join_js w [CHR 0x0A] returnBooks @ [CHR 0x0A, CHR 0x0A]
       @ URL_RENTAL_LIST"

text \<open>Line 18: \<^verbatim>\<open>formatDate(addDays(new Date(), 1))\<close>.\<close>

definition tomorrow_string :: "jsval prog" where
  "tomorrow_string =
     bindE new_Date (\<lambda>now.
     bindE (addDaysE now (Some 1)) (\<lambda>shifted.
     getsE (\<lambda>w. formatDate (tza w) (slots (dates w)) (JDate shifted))))"

text \<open>Lines 21 to 24: the message is built and sent when there is a title.\<close>

definition notify_due :: "config option \<Rightarrow> jsval list \<Rightarrow> unit prog" where
  "notify_due config returnBooks =
     (if 0 < length returnBooks
      then bindE (getsE (\<lambda>w. due_message w returnBooks))
             (\<lambda>message. sendMessageToLINE config (JStr message))
      else returnE ())"

definition checkReturnDatesAndNotify :: "unit prog" where
  "checkReturnDatesAndNotify = catchE
     (bindE getConfig (\<lambda>config.
      if config_invalid config then logError MSG_CONFIG_INVALID
      else
        bindE tomorrow_string (\<lambda>tomorrow.
        bindE (getBooksDueOnDate tomorrow) (\<lambda>returnBooks.
        notify_due config returnBooks))))
     (\<lambda>error. logError (MSG_CHECK_FAILED @ message_of error))"

section \<open>Sample worlds\<close>

text \<open>
  A spreadsheet with the three settings and three loans, read at 2024-01-05 09:00 in a
  time zone nine hours ahead of UTC. Date object 0 is 2024-01-06 00:00 local time, object
  1 is 2024-01-09 00:00; the third loan's due date is a text cell. Nothing throws.
\<close>

definition sample_settings :: "jsval list list" where
  "sample_settings =
     [[JStr ''URL'', JStr ''https://api.line.me/v2/bot/message/push''],
      [JStr ''ACCESS_TOKEN'', JStr ''secret''],
      [JStr ''TO_USER_ID'', JStr ''U1'']]"

definition sample_loans :: "jsval list list" where
  "sample_loans =
     [[JStr ''no'', JStr ''lib'', JStr ''kind'', JStr ''Title'', JStr ''from'', JStr ''n'',
       JStr ''DueDate''],
      [JNum (Some 1), JStr ''A'', JStr ''book'', JStr ''Book A'', JStr [], JNum (Some 0),
       JDate 0],
      [JNum (Some 2), JStr ''A'', JStr ''book'', JStr ''Book B'', JStr [], JNum (Some 0),
       JDate 1],
      [JNum (Some 3), JStr ''A'', JStr ''book'', JStr ''Book C'', JStr [], JNum (Some 0),
       JStr ''2024/01/06'']]"

definition sample_world :: world where
  "sample_world =
     \<lparr>sheets = [SETTINGS_SHEET_NAME \<mapsto> sample_settings, DATA_SHEET_NAME \<mapsto> sample_loans],
      dates = \<lparr>slots = (\<lambda>r. if r = 0 then Some 1704466800000
                            else if r = 1 then Some 1704726000000 else None),
               nxt = 2\<rparr>,
      trace = [],
      faults = (\<lambda>h c. None),
      clock = (\<lambda>h. 1704412800000),
      tza = 32400000,
      Date_toString = (\<lambda>t. ''Date''),
      Date_toLocaleString = (\<lambda>t. ''now''),
      JSON_stringify = (\<lambda>h b. ''json'')\<rparr>"

text \<open>The same spreadsheet on a day when every call of the platform throws.\<close>

definition broken_world :: world where
  "broken_world = sample_world\<lparr>faults := (\<lambda>h c. Some ''Service unavailable'')\<rparr>"

text \<open>The same spreadsheet when the endpoint and the reads of cell values throw, and the
  calls that \<^verbatim>\<open>logError\<close> makes do not.\<close>

definition flaky_world :: world where
  "flaky_world = sample_world\<lparr>faults := (\<lambda>h c. case c of
       Fetch req \<Rightarrow> Some ''Address unavailable''
     | GetValues rg \<Rightarrow> Some ''Service error''
     | _ \<Rightarrow> None)\<rparr>"

section \<open>Notions of the specification\<close>

text \<open>What the specification's sentences speak of: a value that is a Date, a decimal digit,
  a number below 100 written with two digits, and a text of the shape \<^verbatim>\<open>YYYY/MM/DD\<close> (four
  digits, a slash, two digits, a slash, two digits).\<close>

definition is_Date :: "jsval \<Rightarrow> bool" where
  "is_Date v = (case v of JDate r \<Rightarrow> True | _ \<Rightarrow> False)"

definition is_digit :: "char \<Rightarrow> bool" where
  "is_digit c = (c \<in> set ''0123456789'')"

definition two_digits :: "nat \<Rightarrow> string" where
  "two_digits n = [digit_char (n div 10), digit_char (n mod 10)]"

definition is_yyyy_mm_dd :: "string \<Rightarrow> bool" where
  "is_yyyy_mm_dd s = (length s = 10 \<and> s ! 4 = CHR ''/'' \<and> s ! 7 = CHR ''/''
     \<and> list_all is_digit (take 4 s @ take 2 (drop 5 s) @ drop 8 s))"

text \<open>The calls \<open>cs\<close>, made one after the other from the history \<open>h\<close>, all return.\<close>

primrec calls_succeed ::
  "(event list \<Rightarrow> event \<Rightarrow> string option) \<Rightarrow> event list \<Rightarrow> event list \<Rightarrow> bool" where
  "calls_succeed F h [] = True"
| "calls_succeed F h (c # cs) = (F h c = None \<and> calls_succeed F (h @ [c]) cs)"

text \<open>The four calls by which \<^verbatim>\<open>getBooksDueOnDate\<close> reads the table of loans.\<close>

definition data_read_calls :: "event list" where
  "data_read_calls =
     [GetActiveSpreadsheet, GetSheetByName DATA_SHEET_NAME, GetDataRange DATA_SHEET_NAME,
      GetValues (DataRange DATA_SHEET_NAME)]"

definition is_Fetch :: "event \<Rightarrow> bool" where
  "is_Fetch e = (case e of Fetch req \<Rightarrow> True | _ \<Rightarrow> False)"

text \<open>The events of the error logger: its entry and the calls it makes (no other function of
  the script appends a row).\<close>

definition is_logging :: "event \<Rightarrow> bool" where
  "is_logging e = (case e of
       LogErrorCalled m \<Rightarrow> True
     | GetActiveSpreadsheet \<Rightarrow> True
     | GetSheetByName n \<Rightarrow> n = ERROR_LOG_SHEET_NAME
     | InsertSheet n \<Rightarrow> n = ERROR_LOG_SHEET_NAME
     | AppendRow n row \<Rightarrow> True
     | _ \<Rightarrow> False)"

text \<open>A step towards the table of loans: asking for the sheet of the loans, or for the
  data range of a sheet (the script does so for no other sheet).\<close>

definition reads_loans :: "event \<Rightarrow> bool" where
  "reads_loans e = (case e of
       GetSheetByName n \<Rightarrow> n = DATA_SHEET_NAME
     | GetDataRange n \<Rightarrow> True
     | _ \<Rightarrow> False)"

text \<open>The rows of the error log.\<close>

definition log_rows :: "world \<Rightarrow> jsval list list" where
  "log_rows w = rows_of w ERROR_LOG_SHEET_NAME"

text \<open>
  The error logger's own calls never throw: \<^verbatim>\<open>getActiveSpreadsheet\<close> right after the
  logger's entry and right after it found no log sheet, and \<^verbatim>\<open>getSheetByName\<close>,
  \<^verbatim>\<open>insertSheet\<close> and \<^verbatim>\<open>appendRow\<close> on the log sheet. Every other call is free to throw.
\<close>

definition logger_ok :: "world \<Rightarrow> bool" where
  "logger_ok w = (\<forall>h.
       (\<forall>m. faults w (h @ [LogErrorCalled m]) GetActiveSpreadsheet = None)
     \<and> faults w h (GetSheetByName ERROR_LOG_SHEET_NAME) = None
     \<and> faults w (h @ [GetSheetByName ERROR_LOG_SHEET_NAME]) GetActiveSpreadsheet = None
     \<and> faults w h (InsertSheet ERROR_LOG_SHEET_NAME) = None
     \<and> (\<forall>row. faults w h (AppendRow ERROR_LOG_SHEET_NAME row) = None))"

text \<open>A key of the configuration is absent or empty; a configuration is null or lacks one
  of the three keys.\<close>

definition absent_or_empty :: "config \<Rightarrow> string \<Rightarrow> bool" where
  "absent_or_empty c k = (map_of c k = None \<or> map_of c k = Some (JStr []))"

definition config_missing :: "config option \<Rightarrow> bool" where
  "config_missing config = (case config of
       None \<Rightarrow> True
     | Some c \<Rightarrow> absent_or_empty c ''URL'' \<or> absent_or_empty c ''ACCESS_TOKEN''
                \<or> absent_or_empty c ''TO_USER_ID'')"

text \<open>The run gets a valid configuration and a list of due titles that is not empty.\<close>

definition sends :: "world \<Rightarrow> bool" where
  "sends w = (case getConfig w of
       (Inr config, w1) \<Rightarrow> \<not> config_invalid config \<and>
         (case tomorrow_string w1 of
            (Inr tomorrow, w2) \<Rightarrow>
              (case getBooksDueOnDate tomorrow w2 of
                 (Inr returnBooks, w3) \<Rightarrow> returnBooks \<noteq> []
               | (Inl e, w3) \<Rightarrow> False)
          | (Inl e, w2) \<Rightarrow> False)
     | (Inl e, w1) \<Rightarrow> False)"

text \<open>The events a run adds to the trace.\<close>

definition run_events :: "'a prog \<Rightarrow> world \<Rightarrow> event list" where
  "run_events m w = drop (length (trace w)) (trace (snd (m w)))"

section \<open>Reasoning about runs\<close>

text \<open>
  \<open>ext P w w'\<close>: the world \<open>w'\<close> comes after \<open>w\<close> by events that all satisfy \<open>P\<close>, under
  the same behaviour of the surroundings. \<open>emits P m\<close>: every run of \<open>m\<close>, returning or
  throwing, is such a step. \<open>total_ok m\<close>: where the logger's calls do not throw, \<open>m\<close>
  returns.
\<close>

definition ext :: "(event \<Rightarrow> bool) \<Rightarrow> world \<Rightarrow> world \<Rightarrow> bool" where
  "ext P w w' = (faults w' = faults w \<and> (\<exists>evs. trace w' = trace w @ evs \<and> list_all P evs))"

definition emits :: "(event \<Rightarrow> bool) \<Rightarrow> 'a prog \<Rightarrow> bool" where
  "emits P m = (\<forall>w. ext P w (snd (m w)))"

definition total_ok :: "'a prog \<Rightarrow> bool" where
  "total_ok m = (\<forall>w. logger_ok w \<longrightarrow> (\<exists>x w'. m w = (Inr x, w') \<and> faults w' = faults w))"

section \<open>The calendar arithmetic meets its characterisation\<close>

text \<open>The year found for a day is the one ECMA-262 asks for: it starts at or before the day
  and its successor starts after it, and it is the only such year. From there the day within
  the year, the month and the day of the month are in their ranges.\<close>

lemma year_down_le: "DayFromYear (year_down d y) \<le> d"
proof (induction d y rule: year_down.induct)
  case (1 d y)
  show ?case
  proof (cases "d < DayFromYear y")
    case True
    then show ?thesis using 1 by (simp add: year_down.simps [of d y])
  next
    case False
    then show ?thesis by (simp add: year_down.simps [of d y])
  qed
qed

lemma year_up_bounds:
  "DayFromYear y \<le> d \<Longrightarrow>
   DayFromYear (year_up d y) \<le> d \<and> d < DayFromYear (year_up d y + 1)"
proof (induction d y rule: year_up.induct)
  case (1 d y)
  show ?case
  proof (cases "DayFromYear (y + 1) \<le> d")
    case True
    then show ?thesis using 1 by (simp add: year_up.simps [of d y])
  next
    case False
    then show ?thesis using 1(2) by (simp add: year_up.simps [of d y])
  qed
qed

lemma YearFromDay_bounds:
  "DayFromYear (YearFromDay d) \<le> d \<and> d < DayFromYear (YearFromDay d + 1)"
  unfolding YearFromDay_def by (rule year_up_bounds) (rule year_down_le)

lemma DayFromYear_mono: "a \<le> b \<Longrightarrow> DayFromYear a \<le> DayFromYear b"
proof (induction "nat (b - a)" arbitrary: b)
  case 0
  then show ?case by simp
next
  case (Suc n)
  then have "n = nat ((b - 1) - a)" "a \<le> b - 1" by linarith+
  then have "DayFromYear a \<le> DayFromYear (b - 1)" using Suc(1) by blast
  then show ?case using DayFromYear_pred [of b] by linarith
qed

lemma YearFromDay_unique:
  assumes "DayFromYear y \<le> d" "d < DayFromYear (y + 1)"
  shows "YearFromDay d = y"
proof -
  let ?z = "YearFromDay d"
  have b: "DayFromYear ?z \<le> d" "d < DayFromYear (?z + 1)" using YearFromDay_bounds by blast+
  have "\<not> y + 1 \<le> ?z" using DayFromYear_mono [of "y + 1" ?z] assms b by linarith
  moreover have "\<not> ?z + 1 \<le> y" using DayFromYear_mono [of "?z + 1" y] assms b by linarith
  ultimately show ?thesis by linarith
qed

lemma DayWithinYear_bounds:
  "0 \<le> DayWithinYear t" "DayWithinYear t < DaysInYear (YearFromTime t)"
  using YearFromDay_bounds [of "Day t"] year_length [of "YearFromTime t"]
  by (simp_all add: DayWithinYear_def YearFromTime_def)

lemma MonthFromTime_range: "0 \<le> MonthFromTime t" "MonthFromTime t \<le> 11"
  by (simp_all add: MonthFromTime_def Let_def)


lemma DateFromTime_eq:
  "DateFromTime t = DayWithinYear t - month_start (MonthFromTime t) (InLeapYear t) + 1"
proof -
  define d where "d = DayWithinYear t"
  define l :: int where "l = (if InLeapYear t then 1 else 0)"
  have l: "0 \<le> l" "l \<le> 1" by (simp_all add: l_def)
  have ms: "month_start m (InLeapYear t) = (
     if m = 0 then 0 else if m = 1 then 31 else if m = 2 then 59 + l
     else if m = 3 then 90 + l else if m = 4 then 120 + l else if m = 5 then 151 + l
     else if m = 6 then 181 + l else if m = 7 then 212 + l else if m = 8 then 243 + l
     else if m = 9 then 273 + l else if m = 10 then 304 + l else 334 + l)" for m
    by (simp add: month_start_def l_def)
  have mf: "MonthFromTime t = (
     if d < 31 then 0 else if d < 59 + l then 1 else if d < 90 + l then 2
     else if d < 120 + l then 3 else if d < 151 + l then 4 else if d < 181 + l then 5
     else if d < 212 + l then 6 else if d < 243 + l then 7 else if d < 273 + l then 8
     else if d < 304 + l then 9 else if d < 334 + l then 10 else 11)"
    by (simp add: MonthFromTime_def d_def l_def Let_def)
  have df: "DateFromTime t = (let m = MonthFromTime t in
     if m = 0 then d + 1 else if m = 1 then d - 30 else if m = 2 then d - 58 - l
     else if m = 3 then d - 89 - l else if m = 4 then d - 119 - l
     else if m = 5 then d - 150 - l else if m = 6 then d - 180 - l
     else if m = 7 then d - 211 - l else if m = 8 then d - 242 - l
     else if m = 9 then d - 272 - l else if m = 10 then d - 303 - l else d - 333 - l)"
    by (simp add: DateFromTime_def d_def l_def Let_def)
  consider (m0) "d < 31" | (m1) "31 \<le> d" "d < 59 + l" | (m2) "59 + l \<le> d" "d < 90 + l" | (m3) "90 + l \<le> d" "d < 120 + l" | (m4) "120 + l \<le> d" "d < 151 + l" | (m5) "151 + l \<le> d" "d < 181 + l" | (m6) "181 + l \<le> d" "d < 212 + l" | (m7) "212 + l \<le> d" "d < 243 + l" | (m8) "243 + l \<le> d" "d < 273 + l" | (m9) "273 + l \<le> d" "d < 304 + l" | (m10) "304 + l \<le> d" "d < 334 + l" | (m11) "334 + l \<le> d"
    using l by linarith
  then show ?thesis
  proof cases
    case m0
    have "MonthFromTime t = 0" using m0 l unfolding mf by simp
    then show ?thesis using l unfolding df ms d_def [symmetric] by simp
  next
    case m1
    have "MonthFromTime t = 1" using m1 l unfolding mf by simp
    then show ?thesis using l unfolding df ms d_def [symmetric] by simp
  next
    case m2
    have "MonthFromTime t = 2" using m2 l unfolding mf by simp
    then show ?thesis using l unfolding df ms d_def [symmetric] by simp
  next
    case m3
    have "MonthFromTime t = 3" using m3 l unfolding mf by simp
    then show ?thesis using l unfolding df ms d_def [symmetric] by simp
  next
    case m4
    have "MonthFromTime t = 4" using m4 l unfolding mf by simp
    then show ?thesis using l unfolding df ms d_def [symmetric] by simp
  next
    case m5
    have "MonthFromTime t = 5" using m5 l unfolding mf by simp
    then show ?thesis using l unfolding df ms d_def [symmetric] by simp
  next
    case m6
    have "MonthFromTime t = 6" using m6 l unfolding mf by simp
    then show ?thesis using l unfolding df ms d_def [symmetric] by simp
  next
    case m7
    have "MonthFromTime t = 7" using m7 l unfolding mf by simp
    then show ?thesis using l unfolding df ms d_def [symmetric] by simp
  next
    case m8
    have "MonthFromTime t = 8" using m8 l unfolding mf by simp
    then show ?thesis using l unfolding df ms d_def [symmetric] by simp
  next
    case m9
    have "MonthFromTime t = 9" using m9 l unfolding mf by simp
    then show ?thesis using l unfolding df ms d_def [symmetric] by simp
  next
    case m10
    have "MonthFromTime t = 10" using m10 l unfolding mf by simp
    then show ?thesis using l unfolding df ms d_def [symmetric] by simp
  next
    case m11
    have "MonthFromTime t = 11" using m11 l unfolding mf by simp
    then show ?thesis using l unfolding df ms d_def [symmetric] by simp
  qed
qed

lemma DateFromTime_range: "1 \<le> DateFromTime t" "DateFromTime t \<le> 31"
proof -
  define d where "d = DayWithinYear t"
  define l :: int where "l = (if InLeapYear t then 1 else 0)"
  have l: "0 \<le> l" "l \<le> 1" by (simp_all add: l_def)
  have hi: "d < 365 + l"
    using DayWithinYear_bounds(2) [of t] DaysInYear_bounds(2) [of "YearFromTime t"]
    unfolding d_def l_def InLeapYear_def by (simp add: DaysInYear_def split: if_splits)
  have lo: "0 \<le> d" using DayWithinYear_bounds(1) [of t] by (simp add: d_def)
  have mf: "MonthFromTime t = (
     if d < 31 then 0 else if d < 59 + l then 1 else if d < 90 + l then 2
     else if d < 120 + l then 3 else if d < 151 + l then 4 else if d < 181 + l then 5
     else if d < 212 + l then 6 else if d < 243 + l then 7 else if d < 273 + l then 8
     else if d < 304 + l then 9 else if d < 334 + l then 10 else 11)"
    by (simp add: MonthFromTime_def d_def l_def Let_def)
  have ms: "month_start m (InLeapYear t) = (
     if m = 0 then 0 else if m = 1 then 31 else if m = 2 then 59 + l
     else if m = 3 then 90 + l else if m = 4 then 120 + l else if m = 5 then 151 + l
     else if m = 6 then 181 + l else if m = 7 then 212 + l else if m = 8 then 243 + l
     else if m = 9 then 273 + l else if m = 10 then 304 + l else 334 + l)" for m
    by (simp add: month_start_def l_def)
  have eq: "DateFromTime t = d - month_start (MonthFromTime t) (InLeapYear t) + 1"
    using DateFromTime_eq [of t] by (simp add: d_def)
  consider (m0) "d < 31" | (m1) "31 \<le> d" "d < 59 + l" | (m2) "59 + l \<le> d" "d < 90 + l" | (m3) "90 + l \<le> d" "d < 120 + l" | (m4) "120 + l \<le> d" "d < 151 + l" | (m5) "151 + l \<le> d" "d < 181 + l" | (m6) "181 + l \<le> d" "d < 212 + l" | (m7) "212 + l \<le> d" "d < 243 + l" | (m8) "243 + l \<le> d" "d < 273 + l" | (m9) "273 + l \<le> d" "d < 304 + l" | (m10) "304 + l \<le> d" "d < 334 + l" | (m11) "334 + l \<le> d"
    using l by linarith
  then have "1 \<le> DateFromTime t \<and> DateFromTime t \<le> 31"
  proof cases
    case m0
    have "MonthFromTime t = 0" using m0 l unfolding mf by simp
    then show ?thesis using m0 l lo hi unfolding eq ms by simp
  next
    case m1
    have "MonthFromTime t = 1" using m1 l unfolding mf by simp
    then show ?thesis using m1 l lo hi unfolding eq ms by simp
  next
    case m2
    have "MonthFromTime t = 2" using m2 l unfolding mf by simp
    then show ?thesis using m2 l lo hi unfolding eq ms by simp
  next
    case m3
    have "MonthFromTime t = 3" using m3 l unfolding mf by simp
    then show ?thesis using m3 l lo hi unfolding eq ms by simp
  next
    case m4
    have "MonthFromTime t = 4" using m4 l unfolding mf by simp
    then show ?thesis using m4 l lo hi unfolding eq ms by simp
  next
    case m5
    have "MonthFromTime t = 5" using m5 l unfolding mf by simp
    then show ?thesis using m5 l lo hi unfolding eq ms by simp
  next
    case m6
    have "MonthFromTime t = 6" using m6 l unfolding mf by simp
    then show ?thesis using m6 l lo hi unfolding eq ms by simp
  next
    case m7
    have "MonthFromTime t = 7" using m7 l unfolding mf by simp
    then show ?thesis using m7 l lo hi unfolding eq ms by simp
  next
    case m8
    have "MonthFromTime t = 8" using m8 l unfolding mf by simp
    then show ?thesis using m8 l lo hi unfolding eq ms by simp
  next
    case m9
    have "MonthFromTime t = 9" using m9 l unfolding mf by simp
    then show ?thesis using m9 l lo hi unfolding eq ms by simp
  next
    case m10
    have "MonthFromTime t = 10" using m10 l unfolding mf by simp
    then show ?thesis using m10 l lo hi unfolding eq ms by simp
  next
    case m11
    have "MonthFromTime t = 11" using m11 l unfolding mf by simp
    then show ?thesis using m11 l lo hi unfolding eq ms by simp
  qed
  then show "1 \<le> DateFromTime t" "DateFromTime t \<le> 31" by simp_all
qed

section \<open>formatDate and addDays\<close>

subsection \<open>Decimal digits and padding\<close>

lemma is_digit_digit_char: "n < 10 \<Longrightarrow> is_digit (digit_char n)"
proof -
  assume "n < 10"
  then have "n \<in> {0, 1, 2, 3, 4, 5, 6, 7, 8, 9}" by auto
  then show ?thesis by (auto simp add: is_digit_def digit_char_def)
qed

lemma nat_digits_lt10: "n < 10 \<Longrightarrow> nat_digits n = [digit_char n]"
  by (simp add: nat_digits.simps [of n])

lemma nat_digits_lt100:
  "10 \<le> n \<Longrightarrow> n < 100 \<Longrightarrow> nat_digits n = [digit_char (n div 10), digit_char (n mod 10)]"
  by (simp add: nat_digits.simps [of n] nat_digits_lt10)

lemma nat_digits_lt1000:
  "100 \<le> n \<Longrightarrow> n < 1000 \<Longrightarrow>
   nat_digits n = [digit_char (n div 100), digit_char (n div 10 mod 10), digit_char (n mod 10)]"
proof -
  assume a: "100 \<le> n" "n < 1000"
  then have "10 \<le> n div 10" "n div 10 < 100" by simp_all
  then have "nat_digits (n div 10) = [digit_char (n div 10 div 10), digit_char (n div 10 mod 10)]"
    by (rule nat_digits_lt100)
  moreover have "n div 10 div 10 = n div 100" using div_mult2_eq [of n 10 10] by simp
  ultimately show ?thesis using a by (simp add: nat_digits.simps [of n])
qed

lemma nat_digits_lt10000:
  "1000 \<le> n \<Longrightarrow> n < 10000 \<Longrightarrow>
   nat_digits n = [digit_char (n div 1000), digit_char (n div 100 mod 10),
                   digit_char (n div 10 mod 10), digit_char (n mod 10)]"
proof -
  assume a: "1000 \<le> n" "n < 10000"
  then have "100 \<le> n div 10" "n div 10 < 1000" by simp_all
  then have "nat_digits (n div 10) = [digit_char (n div 10 div 100),
      digit_char (n div 10 div 10 mod 10), digit_char (n div 10 mod 10)]"
    by (rule nat_digits_lt1000)
  moreover have "n div 10 div 100 = n div 1000" using div_mult2_eq [of n 10 100] by simp
  moreover have "n div 10 div 10 = n div 100" using div_mult2_eq [of n 10 10] by simp
  ultimately show ?thesis using a by (simp add: nat_digits.simps [of n])
qed

lemma pad2: "n < 100 \<Longrightarrow> padStart 2 ''0'' (nat_digits n) = two_digits n"
proof (cases "n < 10")
  case True
  then show ?thesis
    by (simp add: nat_digits_lt10 padStart_def two_digits_def digit_char_def)
next
  case False
  assume "n < 100"
  then show ?thesis using False
    by (simp add: nat_digits_lt100 padStart_def two_digits_def)
qed

lemma two_digits_digits: "n < 100 \<Longrightarrow> list_all is_digit (two_digits n)"
  by (simp add: two_digits_def is_digit_digit_char)

lemma year4:
  assumes "1000 \<le> y" "y \<le> 9999"
  shows "length (Number_toString (Some y)) = 4 \<and> list_all is_digit (Number_toString (Some y))"
proof -
  have "1000 \<le> nat y" "nat y < 10000" using assms by simp_all
  then show ?thesis using assms
    by (simp add: Number_toString_def nat_digits_lt10000 is_digit_digit_char)
qed

lemma formatDate_valid:
  assumes "h r = Some t"
  shows "formatDate tz h (JDate r) =
     JStr (Number_toString (Some (YearFromTime (LocalTime tz t))) @ ''/''
           @ two_digits (nat (MonthFromTime (LocalTime tz t) + 1)) @ ''/''
           @ two_digits (nat (DateFromTime (LocalTime tz t))))"
proof -
  let ?l = "LocalTime tz t"
  have m: "0 \<le> MonthFromTime ?l + 1" "nat (MonthFromTime ?l + 1) < 100"
    using MonthFromTime_range [of ?l] by simp_all
  have d: "0 \<le> DateFromTime ?l" "nat (DateFromTime ?l) < 100"
    using DateFromTime_range [of ?l] by simp_all
  show ?thesis
    using assms m d
    by (simp add: formatDate_def getFullYear_def getMonth_def getDate_def num_add_def
        Number_toString_def pad2 Let_def)
qed

lemma formatDate_non_date: "\<not> is_Date v \<Longrightarrow> formatDate tz h v = v"
  by (cases v) (simp_all add: formatDate_def is_Date_def)

subsection \<open>The format of a date\<close>

text \<open>
  Claim C6, as the specification states it: for every genuine calendar date, \<^verbatim>\<open>formatDate\<close>
  returns a text of the shape \<^verbatim>\<open>YYYY/MM/DD\<close>, month and day padded with zeros to two digits.
  The code pads the month and the day and leaves the year as \<^verbatim>\<open>getFullYear\<close> gives it, so the
  statement that holds is: for every valid Date, the result is the year in decimal, a slash,
  the month (1 to 12) in two digits, a slash, and the day of the month (1 to 31) in two
  digits; it has the shape \<^verbatim>\<open>YYYY/MM/DD\<close> whenever the year is between 1000 and 9999.
\<close>

theorem formatDate_pads_month_and_day:
  assumes "h r = Some t"
  shows "formatDate tz h (JDate r) =
           JStr (Number_toString (Some (YearFromTime (LocalTime tz t))) @ ''/''
                 @ two_digits (nat (MonthFromTime (LocalTime tz t) + 1)) @ ''/''
                 @ two_digits (nat (DateFromTime (LocalTime tz t))))
         \<and> 1 \<le> MonthFromTime (LocalTime tz t) + 1 \<and> MonthFromTime (LocalTime tz t) + 1 \<le> 12
         \<and> 1 \<le> DateFromTime (LocalTime tz t) \<and> DateFromTime (LocalTime tz t) \<le> 31
         \<and> (1000 \<le> YearFromTime (LocalTime tz t) \<and> YearFromTime (LocalTime tz t) \<le> 9999 \<longrightarrow>
              (\<exists>s. formatDate tz h (JDate r) = JStr s \<and> is_yyyy_mm_dd s))"
proof -
  let ?l = "LocalTime tz t"
  let ?y = "Number_toString (Some (YearFromTime ?l))"
  let ?m = "two_digits (nat (MonthFromTime ?l + 1))"
  let ?d = "two_digits (nat (DateFromTime ?l))"
  note f = formatDate_valid [of h r t tz, OF assms]
  have m: "1 \<le> MonthFromTime ?l + 1" "MonthFromTime ?l + 1 \<le> 12"
    using MonthFromTime_range [of ?l] by simp_all
  have d: "1 \<le> DateFromTime ?l" "DateFromTime ?l \<le> 31"
    using DateFromTime_range [of ?l] by simp_all
  have md: "list_all is_digit ?m" "list_all is_digit ?d"
    using m d by (simp_all add: two_digits_digits)
  have len: "length ?m = 2" "length ?d = 2" by (simp_all add: two_digits_def)
  have shape: "is_yyyy_mm_dd (?y @ ''/'' @ ?m @ ''/'' @ ?d)"
    if y: "1000 \<le> YearFromTime ?l" "YearFromTime ?l \<le> 9999"
  proof -
    from year4 [OF y] have y4: "length ?y = 4" "list_all is_digit ?y" by simp_all
    show ?thesis
      using y4 md len by (simp add: is_yyyy_mm_dd_def nth_append)
  qed
  show ?thesis using f m d shape by simp
qed

theorem formatDate_pads_month_and_day_witness:
  "(\<lambda>r. Some 1704412800000) (0::nat) = Some (1704412800000::int)
   \<and> formatDate 32400000 (\<lambda>r. Some 1704412800000) (JDate 0) = JStr ''2024/01/05''
   \<and> is_yyyy_mm_dd ''2024/01/05''"
proof -
  have e: "formatDate 32400000 (\<lambda>r. Some 1704412800000) (JDate 0) = JStr ''2024/01/05''"
    "1000 \<le> YearFromTime (LocalTime 32400000 1704412800000)"
    "YearFromTime (LocalTime 32400000 1704412800000) \<le> 9999"
    by code_simp+
  from formatDate_pads_month_and_day [of "\<lambda>r. Some 1704412800000" 0 1704412800000 32400000]
  have "\<exists>s. formatDate 32400000 (\<lambda>r. Some 1704412800000) (JDate 0) = JStr s \<and> is_yyyy_mm_dd s"
    using e(2,3) by blast
  then show ?thesis using e(1) by simp
qed

text \<open>The fifth of January of the year 999 (a valid Date, 30641414400000 ms before the
  epoch) is rendered with a year of three digits.\<close>

theorem formatDate_short_year_counterexample:
  "(\<lambda>r. Some (- 30641414400000)) (0::nat) = Some (- 30641414400000::int)
   \<and> formatDate 0 (\<lambda>r. Some (- 30641414400000)) (JDate 0) = JStr ''999/01/05''
   \<and> \<not> is_yyyy_mm_dd ''999/01/05''"
  by code_simp

subsection \<open>Values that are not dates\<close>

text \<open>
  Claim C7: for every input that is not a date, \<^verbatim>\<open>formatDate\<close> returns the input itself,
  unchanged; strings and blank values included.
\<close>

theorem formatDate_passes_non_dates:
  "\<not> is_Date v \<Longrightarrow> formatDate tz h v = v"
  by (cases v) (simp_all add: formatDate_def is_Date_def)

theorem formatDate_passes_non_dates_witness:
  "\<not> is_Date (JStr ''2024/01/05'') \<and> formatDate 0 (\<lambda>r. None) (JStr ''2024/01/05'') = JStr ''2024/01/05''
   \<and> \<not> is_Date (JStr []) \<and> formatDate 0 (\<lambda>r. None) (JStr []) = JStr []
   \<and> formatDate 0 (\<lambda>r. None) (JNum (Some 45000)) = JNum (Some 45000)
   \<and> formatDate 0 (\<lambda>r. None) JUndefined = JUndefined"
  using formatDate_passes_non_dates [of "JStr ''2024/01/05''" 0 "\<lambda>r. None"]
    formatDate_passes_non_dates [of "JStr []" 0 "\<lambda>r. None"]
    formatDate_passes_non_dates [of "JNum (Some 45000)" 0 "\<lambda>r. None"]
    formatDate_passes_non_dates [of JUndefined 0 "\<lambda>r. None"]
  by (simp add: is_Date_def)

subsection \<open>Adding days\<close>

lemma MakeDay_shift:
  "MakeDay (Some (YearFromTime t)) (Some (MonthFromTime t)) (Some (DateFromTime t + n))
     = Some (Day t + n)"
proof -
  have m: "MonthFromTime t div 12 = 0" "MonthFromTime t mod 12 = MonthFromTime t"
    using MonthFromTime_range [of t] by simp_all
  have "DayFromYear (YearFromTime t) + month_start (MonthFromTime t) (InLeapYear t)
          + (DateFromTime t + n) - 1 = Day t + n"
    by (simp add: DateFromTime_eq DayWithinYear_def)
  then show ?thesis by (simp add: MakeDay_def m InLeapYear_def Let_def)
qed

lemma MakeDate_shift:
  "MakeDate (Some (Day t + n)) (Some (TimeWithinDay t)) = Some (t + n * msPerDay)"
proof -
  have "t div msPerDay * msPerDay + t mod msPerDay = t" by simp
  then show ?thesis by (simp add: MakeDate_def Day_def TimeWithinDay_def algebra_simps)
qed

lemma Day_shift: "Day (t + n * msPerDay) = Day t + n"
  by (simp add: Day_def msPerDay_def)

lemma TimeWithinDay_shift: "TimeWithinDay (t + n * msPerDay) = TimeWithinDay t"
  by (simp add: TimeWithinDay_def)

text \<open>
  Claim C8, as the specification states it: for every date and every integer \<open>n \<ge> 0\<close>,
  \<^verbatim>\<open>addDays\<close> returns a new date exactly \<open>n\<close> calendar days later and leaves its
  argument as it was. A Date holds at most 8640000000000000 ms on either side of the epoch,
  and \<^verbatim>\<open>setDate\<close> makes the date invalid beyond; so the statement that holds is: for
  every valid Date in use and every \<open>n \<ge> 0\<close> such that the time \<open>n\<close> days later is still
  in that range, the result is a new object, \<open>n\<close> days later to the millisecond (the local
  day number grows by \<open>n\<close>, the time within the day stays), and no other object changes,
  the argument in particular.
\<close>

theorem addDays_shifts_a_copy:
  assumes "slots ds date = Some t" and "\<bar>t\<bar> \<le> 8640000000000000" and "date < nxt ds"
    and "0 \<le> n" and "\<bar>t + n * msPerDay\<bar> \<le> 8640000000000000"
  shows "case addDays tz date (Some n) ds of (newDate, ds') \<Rightarrow>
           newDate = nxt ds \<and> newDate \<noteq> date
         \<and> slots ds' newDate = Some (t + n * msPerDay)
         \<and> slots ds' date = Some t
         \<and> (\<forall>r. r \<noteq> newDate \<longrightarrow> slots ds' r = slots ds r)
         \<and> Day (LocalTime tz (t + n * msPerDay)) = Day (LocalTime tz t) + n
         \<and> TimeWithinDay (LocalTime tz (t + n * msPerDay)) = TimeWithinDay (LocalTime tz t)"
proof -
  let ?l = "LocalTime tz t"
  have clip: "TimeClip (Some t) = Some t" using assms(2) by (simp add: TimeClip_def)
  have nd: "MakeDate (MakeDay (Some (YearFromTime ?l)) (Some (MonthFromTime ?l))
                        (Some (DateFromTime ?l + n))) (Some (TimeWithinDay ?l))
            = Some (?l + n * msPerDay)"
    by (simp add: MakeDay_shift MakeDate_shift)
  have u: "UTC tz (?l + n * msPerDay) = t + n * msPerDay"
    by (simp add: UTC_def LocalTime_def)
  have clip2: "TimeClip (Some (t + n * msPerDay)) = Some (t + n * msPerDay)"
    using assms(5) by (simp add: TimeClip_def)
  have l: "LocalTime tz (t + n * msPerDay) = ?l + n * msPerDay"
    by (simp add: LocalTime_def)
  show ?thesis
    using assms(1,3)
    by (simp add: addDays_def new_Date_copy_def alloc_Date_def setDate_def getDate_def
        num_add_def clip nd u clip2 l Day_shift TimeWithinDay_shift Let_def)
qed

text \<open>January 31st, 2024 and one day is February 1st; December 31st, 2023 and one day is
  January 1st, 2024.\<close>

theorem addDays_shifts_a_copy_witness:
  "slots \<lparr>slots = (\<lambda>r. Some 1706659200000), nxt = 1\<rparr> 0 = Some 1706659200000
   \<and> (0::nat) < nxt \<lparr>slots = (\<lambda>r. Some 1706659200000), nxt = 1\<rparr>
   \<and> (case addDays 32400000 0 (Some 1) \<lparr>slots = (\<lambda>r. Some 1706659200000), nxt = 1\<rparr> of
      (newDate, ds') \<Rightarrow>
        newDate = 1 \<and> slots ds' newDate = Some 1706745600000 \<and> slots ds' 0 = Some 1706659200000
      \<and> formatDate 32400000 (slots ds') (JDate 0) = JStr ''2024/01/31''
      \<and> formatDate 32400000 (slots ds') (JDate newDate) = JStr ''2024/02/01'')
   \<and> (case addDays 0 0 (Some 1) \<lparr>slots = (\<lambda>r. Some 1703980800000), nxt = 1\<rparr> of
      (newDate, ds') \<Rightarrow>
        slots ds' newDate = Some (1703980800000 + 1 * msPerDay)
      \<and> formatDate 0 (slots ds') (JDate 0) = JStr ''2023/12/31''
      \<and> formatDate 0 (slots ds') (JDate newDate) = JStr ''2024/01/01'')"
proof -
  let ?ds = "\<lparr>slots = (\<lambda>r. Some 1706659200000), nxt = 1\<rparr>"
  let ?es = "\<lparr>slots = (\<lambda>r. Some 1703980800000), nxt = 1\<rparr>"
  have a: "case addDays 32400000 0 (Some 1) ?ds of (newDate, ds') \<Rightarrow>
           newDate = nxt ?ds \<and> newDate \<noteq> 0
         \<and> slots ds' newDate = Some (1706659200000 + 1 * msPerDay)
         \<and> slots ds' 0 = Some 1706659200000
         \<and> (\<forall>r. r \<noteq> newDate \<longrightarrow> slots ds' r = slots ?ds r)
         \<and> Day (LocalTime 32400000 (1706659200000 + 1 * msPerDay))
             = Day (LocalTime 32400000 1706659200000) + 1
         \<and> TimeWithinDay (LocalTime 32400000 (1706659200000 + 1 * msPerDay))
             = TimeWithinDay (LocalTime 32400000 1706659200000)"
    by (rule addDays_shifts_a_copy) (simp_all add: msPerDay_def)
  have b: "case addDays 0 0 (Some 1) ?es of (newDate, ds') \<Rightarrow>
           newDate = nxt ?es \<and> newDate \<noteq> 0
         \<and> slots ds' newDate = Some (1703980800000 + 1 * msPerDay)
         \<and> slots ds' 0 = Some 1703980800000
         \<and> (\<forall>r. r \<noteq> newDate \<longrightarrow> slots ds' r = slots ?es r)
         \<and> Day (LocalTime 0 (1703980800000 + 1 * msPerDay))
             = Day (LocalTime 0 1703980800000) + 1
         \<and> TimeWithinDay (LocalTime 0 (1703980800000 + 1 * msPerDay))
             = TimeWithinDay (LocalTime 0 1703980800000)"
    by (rule addDays_shifts_a_copy) (simp_all add: msPerDay_def)
  have f: "\<And>h. h (1::nat) = Some 1706745600000 \<Longrightarrow>
             formatDate 32400000 h (JDate 1) = JStr ''2024/02/01''"
          "\<And>h. h (0::nat) = Some 1706659200000 \<Longrightarrow>
             formatDate 32400000 h (JDate 0) = JStr ''2024/01/31''"
          "\<And>h. h (1::nat) = Some 1704067200000 \<Longrightarrow>
             formatDate 0 h (JDate 1) = JStr ''2024/01/01''"
          "\<And>h. h (0::nat) = Some 1703980800000 \<Longrightarrow>
             formatDate 0 h (JDate 0) = JStr ''2023/12/31''"
    by (simp_all add: formatDate_def) code_simp+
  show ?thesis using a b f by (auto simp add: msPerDay_def split: prod.splits)
qed

text \<open>January 31st, 2024 and a hundred million days: the copy is an invalid date.\<close>

theorem addDays_out_of_range_counterexample:
  "slots \<lparr>slots = (\<lambda>r. Some 1706659200000), nxt = 1\<rparr> 0 = Some 1706659200000
   \<and> (0::int) \<le> 100000000
   \<and> (case addDays 0 0 (Some 100000000) \<lparr>slots = (\<lambda>r. Some 1706659200000), nxt = 1\<rparr> of
        (newDate, ds') \<Rightarrow> slots ds' newDate = None
          \<and> slots ds' newDate \<noteq> Some (1706659200000 + 100000000 * msPerDay)
          \<and> formatDate 0 (slots ds') (JDate newDate) = JStr ''NaN/NaN/NaN'')"
  by code_simp

end
